theory Spec2Isabelle
  imports Main "HOL-Library.Signed_Division"
begin

section \<open>The relay, dispatch and liveness subsystem of the arcade server\<close>

text \<open>
  The Go source is one file: the \<open>Server\<close> type with its liveness table
  (\<open>connectedClients\<close>), the periodic heartbeat task \<open>startHeartbeats\<close> and the
  dispatcher \<open>handleMessage\<close>. The definitions below follow that file function by
  function. The packages \<open>net\<close> (the connection registry) and \<open>message\<close> (the
  envelope header and its constructors) and the view manager are used by the file but
  are not part of it; they are modelled from the specification and marked as such.
\<close>

subsection \<open>Durations and instants\<close>

text \<open>
  \<open>time.Duration\<close> is an \<open>int64\<close> count of nanoseconds. It is modelled as an
  \<open>int\<close> with the two's complement wrap-around written out by \<open>int64\<close>.
  An instant (\<open>time.Time\<close>) is a number of nanoseconds on the time line.
\<close>

type_synonym Duration = int
type_synonym Time = int

definition int64 :: "int \<Rightarrow> int" where
  "int64 x = (x + 2 ^ 63) mod 2 ^ 64 - 2 ^ 63"

definition Millisecond :: Duration where
  "Millisecond = 1000000"

definition maxDuration :: Duration where
  "maxDuration = 2 ^ 63 - 1"

definition minDuration :: Duration where
  "minDuration = - (2 ^ 63)"

definition timeoutInterval :: Duration where
  "timeoutInterval = 2500 * Millisecond"

definition heartbeatInterval :: Duration where
  "heartbeatInterval = 250 * Millisecond"

definition rttAverageNum :: int where
  "rttAverageNum = 10"

text \<open>
  \<open>t.Sub(u)\<close> of the Go library: the difference, saturated at the largest and smallest
  duration. \<open>time.Since(u)\<close> is \<open>time.Now().Sub(u)\<close>; the reading of the clock is
  the first argument.
\<close>

definition Sub :: "Time \<Rightarrow> Time \<Rightarrow> Duration" where
  "Sub t u = (let d = t - u in
     if d > maxDuration then maxDuration
     else if d < minDuration then minDuration
     else d)"

definition Since :: "Time \<Rightarrow> Time \<Rightarrow> Duration" where
  "Since now u = Sub now u"

text \<open>The zero \<open>time.Time\<close> (January 1, year 1, UTC), as nanoseconds before the Unix epoch.\<close>

definition zeroTime :: Time where
  "zeroTime = - 62135596800 * 1000000000"

text \<open>\<open>d.Milliseconds()\<close>: integer division by \<open>1e6\<close>, truncating towards zero.\<close>

definition Milliseconds :: "Duration \<Rightarrow> int" where
  "Milliseconds d = d sdiv 1000000"

subsection \<open>The liveness record and its mean round-trip time\<close>

record ConnectedClientInfo =
  LastHeartbeat :: Time
  HeartbeatSendTimes :: "int \<rightharpoonup> Time"
  RTTs :: "Duration list"

text \<open>
  The loop of \<open>GetMeanRTT\<close>:
  \<^verbatim>\<open>for i := len(c.RTTs) - 1; i >= 0 && i >= len(c.RTTs)-(rttAverageNum+1); i-- {
      sum += c.RTTs[i]; count++ }\<close>
  The index stays below the length and the guard keeps it non-negative, so the read
  \<open>c.RTTs[i]\<close> is always in range.
\<close>

function meanLoop :: "Duration list \<Rightarrow> int \<Rightarrow> Duration \<Rightarrow> int \<Rightarrow> Duration \<times> int" where
  "meanLoop rtts i sm count =
     (if i \<ge> 0 \<and> i \<ge> int (length rtts) - (rttAverageNum + 1)
      then meanLoop rtts (i - 1) (int64 (sm + rtts ! nat i)) (count + 1)
      else (sm, count))"
  by pat_completeness auto
termination
  by (relation "measure (\<lambda>(rtts, i, sm, count). nat (i + 1))") auto

declare meanLoop.simps [simp del]

definition GetMeanRTT :: "ConnectedClientInfo \<Rightarrow> Duration" where
  "GetMeanRTT c =
     (case meanLoop (RTTs c) (int (length (RTTs c)) - 1) 0 0 of
        (sm, count) \<Rightarrow>
          if count = 0 then int64 (- 1 * Millisecond)
          else int64 (sm sdiv count))"

text \<open>The arithmetic mean of the last \<open>n\<close> samples, as the specification words it.\<close>

definition meanOfLast :: "nat \<Rightarrow> Duration list \<Rightarrow> Duration" where
  "meanOfLast n rtts =
     (let window = take n (rev rtts) in
      sum_list window sdiv int (length window))"

text \<open>
  The samples the loop has read when it is at index \<open>i\<close> and runs to its end: those at
  the indices from \<open>len - (rttAverageNum + 1)\<close> (or 0) up to \<open>i\<close>.
\<close>

definition window :: "Duration list \<Rightarrow> int \<Rightarrow> Duration list" where
  "window rtts i = drop (nat (int (length rtts) - (rttAverageNum + 1))) (take (nat (i + 1)) rtts)"

subsection \<open>Envelopes\<close>

text \<open>
  Every message variant of the Go code embeds the header \<open>message.Message\<close>
  (\<open>MessageID\<close>, \<open>SenderID\<close>, \<open>RecipientID\<close>, \<open>Type\<close>) by value. The variant
  is the \<open>Payload\<close> here; the header's \<open>Type\<close> string repeats the variant and the
  dispatcher reads it only to print it, so the variant stands for it. An empty
  \<open>MessageID\<close> is an absent correlation id. Heartbeat metadata and application
  payloads are opaque byte strings.
\<close>

datatype Payload =
    DisconnectMessage
  | HeartbeatMessage int string
  | HeartbeatReplyMessage int
  | ErrorMessage string
  | AppMessage string

record Envelope =
  MessageID :: string
  SenderID :: string
  RecipientID :: string
  Payload :: Payload

text \<open>
  Modelled from the spec: the constructors of the reserved message kinds
  \<open>Heartbeat{seq, metadata}\<close>, \<open>HeartbeatReply{seq}\<close> and \<open>Error{message}\<close> live in
  another file of the package. They build the variant with an empty header, which the
  dispatcher stamps afterwards.
\<close>

definition NewHeartbeatMessage :: "int \<Rightarrow> string \<Rightarrow> Envelope" where
  "NewHeartbeatMessage seq metadata =
     \<lparr>MessageID = [], SenderID = [], RecipientID = [], Payload = HeartbeatMessage seq metadata\<rparr>"

definition NewHeartbeatReplyMessage :: "int \<Rightarrow> Envelope" where
  "NewHeartbeatReplyMessage seq =
     \<lparr>MessageID = [], SenderID = [], RecipientID = [], Payload = HeartbeatReplyMessage seq\<rparr>"

definition NewErrorMessage :: "string \<Rightarrow> Envelope" where
  "NewErrorMessage text =
     \<lparr>MessageID = [], SenderID = [], RecipientID = [], Payload = ErrorMessage text\<rparr>"

text \<open>
  What \<open>ProcessMessage\<close> or a branch of the dispatcher leaves in \<open>res\<close>: nothing, a Go
  \<open>error\<close> value, or a message.
\<close>

datatype Reply = NilReply | ErrorValue string | Msg Envelope

subsection \<open>The server, the connection registry and the application layer\<close>

text \<open>
  A \<open>*net.Client\<close> is a pointer: the dispatcher writes \<open>c.Distance\<close> and the heartbeat
  task increments \<open>client.Seq\<close> on objects shared with the registry. The client
  objects live in a store indexed by address; the registry maps a peer identity to the
  address of its connection record. A client pointer handed to the server is never nil.
  \<open>Seq\<close> is a Go \<open>int\<close> (64 bits); \<open>Distance\<close> is a \<open>float64\<close> that only ever holds a
  whole number of milliseconds below \<open>2 ^ 53\<close> in magnitude, which it represents exactly.
\<close>

type_synonym addr = nat

record Client =
  ClientID :: string
  Seq :: int
  Distance :: int

datatype Event = ClientDisconnectEvent string | HeartbeatEvent string

text \<open>
  What the server does to its collaborators, in the order it does it: a waiter signalled
  (\<open>Network.SignalReceived\<close>), an event raised to the view manager
  (\<open>ViewManager.ProcessEvent\<close>), an envelope written to a connection
  (\<open>Network.Send\<close>), a call of the application's \<open>ProcessMessage\<close>, a request to
  redraw the debug view.
\<close>

datatype Effect =
    Signalled string Envelope
  | Raised Event
  | Sent addr Envelope
  | Processed addr Envelope
  | DebugRender

text \<open>
  The state: the fields \<open>ID\<close> and \<open>connectedClients\<close> of \<open>Server\<close>, the process-wide
  flag \<open>arcade.Distributor\<close>, the registry and client objects of \<open>Server.Network\<close>,
  and the trace of effects. The mutex is not modelled: every operation below is one
  sequential run of the Go function.
\<close>

record Server =
  ID :: string
  connectedClients :: "string \<rightharpoonup> ConnectedClientInfo"
  Distributor :: bool
  clients :: "string \<rightharpoonup> addr"
  heap :: "addr \<Rightarrow> Client"
  trace :: "Effect list"

definition emit :: "Effect \<Rightarrow> Server \<Rightarrow> Server" where
  "emit e s = s\<lparr>trace := trace s @ [e]\<rparr>"

text \<open>
  Modelled from the spec: the Connection Registry (package \<open>net\<close>) is not in the source
  file. \<open>lookup(identity)\<close> returns the connection and whether it was found;
  \<open>send(connection, envelope)\<close> writes the envelope to the connection;
  \<open>disconnect(identity)\<close> closes the connection and removes the record, and is a no-op
  for an absent identity; \<open>signalReceived(correlationId, envelope)\<close> resolves a waiter.
\<close>

definition GetClient :: "Server \<Rightarrow> string \<Rightarrow> addr option" where
  "GetClient s clientID = clients s clientID"

definition Send :: "addr \<Rightarrow> Envelope \<Rightarrow> Server \<Rightarrow> Server" where
  "Send client msg s = emit (Sent client msg) s"

definition Disconnect :: "string \<Rightarrow> Server \<Rightarrow> Server" where
  "Disconnect clientID s = s\<lparr>clients := (clients s)(clientID := None)\<rparr>"

definition SignalReceived :: "string \<Rightarrow> Envelope \<Rightarrow> Server \<Rightarrow> Server" where
  "SignalReceived messageID msg s = emit (Signalled messageID msg) s"

text \<open>
  Modelled from the spec: the Application Layer (the view manager and
  \<open>ProcessMessage\<close>) is an external collaborator. Events and calls are recorded on the
  trace; what \<open>ProcessMessage\<close> returns is a parameter of the dispatcher.
\<close>

definition ProcessEvent :: "Event \<Rightarrow> Server \<Rightarrow> Server" where
  "ProcessEvent evt s = emit (Raised evt) s"

definition RequestDebugRender :: "Server \<Rightarrow> Server" where
  "RequestDebugRender s = emit DebugRender s"

subsection \<open>Starting and ending heartbeat tracking\<close>

definition BeginHeartbeats :: "Time \<Rightarrow> string \<Rightarrow> Server \<Rightarrow> Server" where
  "BeginHeartbeats now clientID s =
     s\<lparr>connectedClients := (connectedClients s)(clientID \<mapsto>
         \<lparr>LastHeartbeat = now, HeartbeatSendTimes = Map.empty, RTTs = []\<rparr>)\<rparr>"

definition EndHeartbeats :: "string \<Rightarrow> Server \<Rightarrow> Server" where
  "EndHeartbeats clientID s = s\<lparr>connectedClients := (connectedClients s)(clientID := None)\<rparr>"

definition EndAllHeartbeats :: "Server \<Rightarrow> Server" where
  "EndAllHeartbeats s = s\<lparr>connectedClients := Map.empty\<rparr>"

definition GetHeartbeatClients :: "Server \<Rightarrow> (string \<rightharpoonup> ConnectedClientInfo)" where
  "GetHeartbeatClients s = connectedClients s"

subsection \<open>One round of the heartbeat task\<close>

text \<open>
  \<open>startHeartbeats\<close> is an endless loop: a round over the liveness table, then a sleep
  of \<open>heartbeatInterval\<close>. A round is one step of the server. What the round reads from
  outside while it handles one client is a \<open>Reading\<close>: the clock when \<open>time.Since\<close>
  is evaluated, the clock at the later \<open>time.Now()\<close>, and the metadata snapshot of
  \<open>GetHeartbeatMetadata\<close>.
\<close>

record Reading =
  sinceClock :: Time
  nowClock :: Time
  metadata :: string

text \<open>\<open>delete(s.connectedClients, clientID)\<close>, inside the round's own lock.\<close>

definition evict :: "string \<Rightarrow> Server \<Rightarrow> Server" where
  "evict clientID s = s\<lparr>connectedClients := (connectedClients s)(clientID := None)\<rparr>"

text \<open>
  The body of the inner loop, for a client that is in the table. The test
  \<open>!ok || time.Since(info.LastHeartbeat) >= timeoutInterval\<close> reads the clock only
  when the registry lookup succeeded.
\<close>

definition heartbeatClient :: "Reading \<Rightarrow> string \<Rightarrow> ConnectedClientInfo \<Rightarrow> Server \<Rightarrow> Server" where
  "heartbeatClient rd clientID info s =
     (case GetClient s clientID of
        None \<Rightarrow> evict clientID (ProcessEvent (ClientDisconnectEvent clientID) s)
      | Some client \<Rightarrow>
          if Since (sinceClock rd) (LastHeartbeat info) \<ge> timeoutInterval
          then evict clientID (ProcessEvent (ClientDisconnectEvent clientID) s)
          else
            let seq = Seq (heap s client);
                s1 = Send client (NewHeartbeatMessage seq (metadata rd)) s;
                s2 = s1\<lparr>connectedClients := (connectedClients s1)(clientID \<mapsto>
                       info\<lparr>HeartbeatSendTimes := (HeartbeatSendTimes info)(seq \<mapsto> nowClock rd)\<rparr>)\<rparr>
            in s2\<lparr>heap := (heap s2)(client := (heap s2 client)\<lparr>Seq := int64 (seq + 1)\<rparr>)\<rparr>)"

text \<open>
  Go visits the entries of a map in an order of its choosing, each entry once; deleting
  the entry being visited is allowed. The order is the list \<open>order\<close>; an identity that
  is not in the table when its turn comes is not visited.
\<close>

definition heartbeatVisit :: "(string \<Rightarrow> Reading) \<Rightarrow> string \<Rightarrow> Server \<Rightarrow> Server" where
  "heartbeatVisit env clientID s =
     (case connectedClients s clientID of
        None \<Rightarrow> s
      | Some info \<Rightarrow> heartbeatClient (env clientID) clientID info s)"

definition heartbeatRound :: "(string \<Rightarrow> Reading) \<Rightarrow> string list \<Rightarrow> Server \<Rightarrow> Server" where
  "heartbeatRound env order s = fold (heartbeatVisit env) order s"

subsection \<open>The dispatcher\<close>

datatype Panic = SliceBoundsOutOfRange | RecipientIsDistributor

text \<open>
  \<open>dispatch\<close> is \<open>handleMessage\<close> up to the end of its outer \<open>switch\<close>: it either
  returns early after forwarding, or leaves a candidate reply in \<open>res\<close>. With the
  \<open>Distributor\<close> flag set the function prints the first four bytes of the sender's (and,
  when forwarding, the recipient's) identity, which panics on a shorter string, and it
  panics on every envelope addressed to the instance itself. \<open>now\<close> is the clock at
  \<open>time.Now()\<close>, \<open>later\<close> the clock when \<open>time.Since\<close> is evaluated after it.
\<close>

datatype Outcome = Forwarded | Res Reply

definition onHeartbeat :: "Time \<Rightarrow> addr \<Rightarrow> string \<Rightarrow> Server \<Rightarrow> Server" where
  "onHeartbeat now c senderID s =
     (case connectedClients s senderID of
        None \<Rightarrow> s
      | Some info \<Rightarrow>
          let info' = info\<lparr>LastHeartbeat := now\<rparr>;
              s1 = s\<lparr>connectedClients := (connectedClients s)(senderID \<mapsto> info')\<rparr>
          in s1\<lparr>heap := (heap s1)(c := (heap s1 c)\<lparr>Distance := Milliseconds (GetMeanRTT info')\<rparr>)\<rparr>)"

definition onHeartbeatReply :: "Time \<Rightarrow> Time \<Rightarrow> string \<Rightarrow> int \<Rightarrow> Server \<Rightarrow> Server" where
  "onHeartbeatReply now later senderID seq s =
     (case connectedClients s senderID of
        None \<Rightarrow> s
      | Some info \<Rightarrow>
          let info1 = info\<lparr>LastHeartbeat := now\<rparr>;
              sent = (case HeartbeatSendTimes info1 seq of None \<Rightarrow> zeroTime | Some t \<Rightarrow> t);
              info2 = info1\<lparr>RTTs := RTTs info1 @ [Since later sent]\<rparr>
          in s\<lparr>connectedClients := (connectedClients s)(senderID \<mapsto> info2)\<rparr>)"

definition dispatch ::
  "(addr \<Rightarrow> Envelope \<Rightarrow> Reply) \<Rightarrow> Time \<Rightarrow> Time \<Rightarrow> Server \<Rightarrow> addr \<Rightarrow> Envelope
   \<Rightarrow> Panic + Outcome \<times> Server" where
  "dispatch ProcessMessage now later s c msg =
     (let s0 = SignalReceived (MessageID msg) msg s in
      if Distributor s0 \<and> length (SenderID msg) < 4 then Inl SliceBoundsOutOfRange
      else if Payload msg = DisconnectMessage then
        Inr (Res NilReply,
             Disconnect (ClientID (heap s0 c))
               (ProcessEvent (ClientDisconnectEvent (ClientID (heap s0 c))) s0))
      else if RecipientID msg \<noteq> ID s0 then
        (if Distributor s0 \<and> length (RecipientID msg) < 4 then Inl SliceBoundsOutOfRange
         else
           (case GetClient s0 (RecipientID msg) of
              Some recipient \<Rightarrow> Inr (Forwarded, Send recipient msg s0)
            | None \<Rightarrow> Inr (Res (Msg (NewErrorMessage ''Invalid recipient'')), s0)))
      else if Distributor s0 then Inl RecipientIsDistributor
      else
        (case Payload msg of
           HeartbeatMessage seq md \<Rightarrow>
             Inr (Res (Msg (NewHeartbeatReplyMessage seq)),
                  ProcessEvent (HeartbeatEvent md) (onHeartbeat now c (SenderID msg) s0))
         | HeartbeatReplyMessage seq \<Rightarrow>
             if RecipientID msg = ID s0
             then Inr (Res NilReply,
                       RequestDebugRender (onHeartbeatReply now later (SenderID msg) seq s0))
             else Inr (Res NilReply, s0)
         | _ \<Rightarrow> Inr (Res (ProcessMessage c msg), emit (Processed c msg) s0)))"

text \<open>
  The end of \<open>handleMessage\<close>: a nil \<open>res\<close> returns; an \<open>error\<close> value becomes an
  Error message; the reply's header takes the request's sender as recipient, the
  server's identity as sender and the request's message id, and goes out on \<open>c\<close>.
\<close>

definition stamp :: "Server \<Rightarrow> Envelope \<Rightarrow> Envelope \<Rightarrow> Envelope" where
  "stamp s baseMsg res =
     res\<lparr>RecipientID := SenderID baseMsg, SenderID := ID s, MessageID := MessageID baseMsg\<rparr>"

definition sendReply :: "Envelope \<Rightarrow> addr \<Rightarrow> Reply \<Rightarrow> Server \<Rightarrow> Server" where
  "sendReply baseMsg c res s =
     (case res of
        NilReply \<Rightarrow> s
      | ErrorValue err \<Rightarrow> Send c (stamp s baseMsg (NewErrorMessage err)) s
      | Msg m \<Rightarrow> Send c (stamp s baseMsg m) s)"

definition handleMessage ::
  "(addr \<Rightarrow> Envelope \<Rightarrow> Reply) \<Rightarrow> Time \<Rightarrow> Time \<Rightarrow> Server \<Rightarrow> addr \<Rightarrow> Envelope
   \<Rightarrow> Panic + Server" where
  "handleMessage ProcessMessage now later s c msg =
     (case dispatch ProcessMessage now later s c msg of
        Inl p \<Rightarrow> Inl p
      | Inr (Forwarded, s') \<Rightarrow> Inr s'
      | Inr (Res res, s') \<Rightarrow> Inr (sendReply msg c res s'))"

subsection \<open>The liveness table within the registry\<close>

text \<open>The inclusion of the data model: every tracked identity has a connection record.\<close>

definition trackedRegistered :: "Server \<Rightarrow> bool" where
  "trackedRegistered s = (dom (connectedClients s) \<subseteq> dom (clients s))"

subsection \<open>Example states and envelopes\<close>

text \<open>
  A server \<open>self\<close> with one peer \<open>peer\<close> that is both registered (at address 1) and
  tracked, with one heartbeat of sequence number 5 pending since instant 100; the same
  server running as a distributor; an application that never replies and one that
  always replies; a round that runs 2500 ms after the peer's last heartbeat and one
  that runs 1000 ns after it; and a few envelopes.
\<close>

definition examplePeer :: Client where
  "examplePeer = \<lparr>ClientID = ''peer'', Seq = 6, Distance = 0\<rparr>"

definition exampleInfo :: ConnectedClientInfo where
  "exampleInfo = \<lparr>LastHeartbeat = 0, HeartbeatSendTimes = [5 \<mapsto> 100], RTTs = []\<rparr>"

definition exampleHeap :: "addr \<Rightarrow> Client" where
  "exampleHeap a = examplePeer"

definition exampleServer :: Server where
  "exampleServer =
     \<lparr>ID = ''self'', connectedClients = [''peer'' \<mapsto> exampleInfo], Distributor = False,
      clients = [''peer'' \<mapsto> 1], heap = exampleHeap, trace = []\<rparr>"

definition exampleDistributor :: Server where
  "exampleDistributor = exampleServer\<lparr>Distributor := True\<rparr>"

definition noReply :: "addr \<Rightarrow> Envelope \<Rightarrow> Reply" where
  "noReply c msg = NilReply"

definition lobbyReply :: "addr \<Rightarrow> Envelope \<Rightarrow> Reply" where
  "lobbyReply c msg =
     Msg \<lparr>MessageID = [], SenderID = [], RecipientID = [], Payload = AppMessage ''lobby''\<rparr>"

definition lateReading :: "string \<Rightarrow> Reading" where
  "lateReading clientID = \<lparr>sinceClock = 2500000000, nowClock = 2500000001, metadata = ''meta''\<rparr>"

definition earlyReading :: "string \<Rightarrow> Reading" where
  "earlyReading clientID = \<lparr>sinceClock = 1000, nowClock = 1001, metadata = ''meta''\<rparr>"

definition disconnectFromPeer :: Envelope where
  "disconnectFromPeer =
     \<lparr>MessageID = [], SenderID = ''peer'', RecipientID = ''self'', Payload = DisconnectMessage\<rparr>"

definition heartbeatFromPeer :: Envelope where
  "heartbeatFromPeer =
     \<lparr>MessageID = ''m1'', SenderID = ''peer'', RecipientID = ''self'',
      Payload = HeartbeatMessage 5 ''meta''\<rparr>"

definition heartbeatFromStranger :: Envelope where
  "heartbeatFromStranger =
     \<lparr>MessageID = ''m2'', SenderID = ''anon'', RecipientID = ''self'',
      Payload = HeartbeatMessage 7 ''meta''\<rparr>"

definition replyFromPeer :: Envelope where
  "replyFromPeer =
     \<lparr>MessageID = [], SenderID = ''peer'', RecipientID = ''self'',
      Payload = HeartbeatReplyMessage 5\<rparr>"

definition helloToSelf :: Envelope where
  "helloToSelf =
     \<lparr>MessageID = ''m3'', SenderID = ''peer'', RecipientID = ''self'',
      Payload = AppMessage ''hello''\<rparr>"

definition helloToPeer :: Envelope where
  "helloToPeer =
     \<lparr>MessageID = ''m4'', SenderID = ''anon'', RecipientID = ''peer'',
      Payload = AppMessage ''hello''\<rparr>"

definition helloToNobody :: Envelope where
  "helloToNobody =
     \<lparr>MessageID = ''m5'', SenderID = ''peer'', RecipientID = ''gone'',
      Payload = AppMessage ''hello''\<rparr>"

definition shortSenderToPeer :: Envelope where
  "shortSenderToPeer =
     \<lparr>MessageID = ''m6'', SenderID = ''ab'', RecipientID = ''peer'',
      Payload = AppMessage ''hello''\<rparr>"

definition helloToShortName :: Envelope where
  "helloToShortName =
     \<lparr>MessageID = ''m7'', SenderID = ''peer'', RecipientID = ''xy'',
      Payload = AppMessage ''hello''\<rparr>"

section \<open>Properties\<close>

lemmas net_defs = SignalReceived_def ProcessEvent_def Send_def Disconnect_def GetClient_def
  RequestDebugRender_def emit_def

lemmas handler_defs = handleMessage_def dispatch_def sendReply_def stamp_def onHeartbeat_def
  onHeartbeatReply_def NewErrorMessage_def NewHeartbeatReplyMessage_def Let_def

lemmas round_defs = heartbeatRound_def heartbeatVisit_def heartbeatClient_def evict_def
  NewHeartbeatMessage_def Let_def

lemmas example_defs = exampleServer_def exampleDistributor_def exampleInfo_def examplePeer_def
  exampleHeap_def noReply_def lobbyReply_def lateReading_def earlyReading_def
  disconnectFromPeer_def
  heartbeatFromPeer_def heartbeatFromStranger_def replyFromPeer_def helloToSelf_def
  helloToPeer_def helloToNobody_def shortSenderToPeer_def helloToShortName_def

subsection \<open>The window of the mean round-trip time\<close>

lemma meanLoop_stop:
  "\<not> (i \<ge> 0 \<and> i \<ge> int (length rtts) - (rttAverageNum + 1)) \<Longrightarrow>
   meanLoop rtts i sm count = (sm, count)"
  by (simp add: meanLoop.simps)

lemma meanLoop_step:
  "i \<ge> 0 \<Longrightarrow> i \<ge> int (length rtts) - (rttAverageNum + 1) \<Longrightarrow>
   meanLoop rtts i sm count =
     meanLoop rtts (i - 1) (int64 (sm + rtts ! nat i)) (count + 1)"
  by (subst meanLoop.simps) simp

text \<open>Wrapping a partial sum and adding to it wraps to the same value as adding first.\<close>

lemma int64_add_left: "int64 (int64 a + b) = int64 (a + b)"
proof -
  have "(int64 a + b + 2 ^ 63) mod (2 ^ 64 :: int) = (a + b + 2 ^ 63) mod 2 ^ 64"
  proof -
    have e: "int64 a + b + 2 ^ 63 = (a + 2 ^ 63) mod 2 ^ 64 + b"
      by (simp add: int64_def)
    have "(int64 a + b + 2 ^ 63) mod (2 ^ 64 :: int) = ((a + 2 ^ 63) mod 2 ^ 64 + b) mod 2 ^ 64"
      by (simp only: e)
    also have "\<dots> = (a + 2 ^ 63 + b) mod 2 ^ 64"
      by (rule mod_add_left_eq)
    also have "a + 2 ^ 63 + b = a + b + 2 ^ 63"
      by simp
    finally show ?thesis .
  qed
  then show ?thesis
    by (simp only: int64_def [of "int64 a + b"] int64_def [of "a + b"])
qed

lemma window_step:
  assumes "0 \<le> i" "i < int (length rtts)" "int (length rtts) - (rttAverageNum + 1) \<le> i"
  shows "window rtts i = window rtts (i - 1) @ [rtts ! nat i]"
proof -
  have "take (nat (i + 1)) rtts = take (nat i) rtts @ [rtts ! nat i]"
    using assms by (simp add: nat_add_distrib take_Suc_conv_app_nth)
  moreover have "nat (int (length rtts) - (rttAverageNum + 1)) \<le> length (take (nat i) rtts)"
    using assms by simp
  ultimately show ?thesis by (simp add: window_def)
qed

lemma window_stop:
  assumes "- 1 \<le> i" "\<not> (0 \<le> i \<and> int (length rtts) - (rttAverageNum + 1) \<le> i)"
  shows "window rtts i = []"
  using assms by (auto simp: window_def)

lemma meanLoop_window:
  "- 1 \<le> i \<Longrightarrow> i < int (length rtts) \<Longrightarrow>
   meanLoop rtts i sm count =
     (if window rtts i = [] then sm else int64 (sm + sum_list (window rtts i)),
      count + int (length (window rtts i)))"
proof (induction rtts i sm count rule: meanLoop.induct)
  case (1 rtts i sm count)
  show ?case
  proof (cases "i \<ge> 0 \<and> i \<ge> int (length rtts) - (rttAverageNum + 1)")
    case False
    then have "window rtts i = []"
      using "1.prems" by (intro window_stop) simp_all
    then show ?thesis using False by (simp add: meanLoop_stop)
  next
    case True
    then have i: "0 \<le> i" "int (length rtts) - (rttAverageNum + 1) \<le> i" by simp_all
    have w: "window rtts i = window rtts (i - 1) @ [rtts ! nat i]"
      using i "1.prems" by (intro window_step) simp_all
    have IH: "meanLoop rtts (i - 1) (int64 (sm + rtts ! nat i)) (count + 1) =
      (if window rtts (i - 1) = [] then int64 (sm + rtts ! nat i)
       else int64 (int64 (sm + rtts ! nat i) + sum_list (window rtts (i - 1))),
       count + 1 + int (length (window rtts (i - 1))))"
      using "1.IH" [OF True] "1.prems" i by simp
    have "meanLoop rtts i sm count = meanLoop rtts (i - 1) (int64 (sm + rtts ! nat i)) (count + 1)"
      using True by (simp add: meanLoop_step)
    also note IH
    finally show ?thesis
      by (simp add: w int64_add_left add.assoc add.commute [of "rtts ! nat i"])
  qed
qed

lemma window_last:
  "window rtts (int (length rtts) - 1) = rev (take (nat (rttAverageNum + 1)) (rev rtts))"
  by (simp add: window_def take_rev rttAverageNum_def nat_diff_distrib')

text \<open>
  What \<open>GetMeanRTT\<close> computes for any record: the sentinel of minus one millisecond
  when there is no sample, and otherwise the (wrapped, truncated) mean of the last
  \<open>rttAverageNum + 1\<close> samples, or of all of them when there are fewer.
\<close>

lemma GetMeanRTT_window:
  "GetMeanRTT c =
     (if RTTs c = [] then - Millisecond
      else int64 (int64 (sum_list (take (nat (rttAverageNum + 1)) (rev (RTTs c))))
                   sdiv int (min (nat (rttAverageNum + 1)) (length (RTTs c)))))"
proof -
  let ?r = "RTTs c"
  let ?k = "nat (rttAverageNum + 1)"
  let ?w = "rev (take ?k (rev ?r))"
  have m: "meanLoop ?r (int (length ?r) - 1) 0 0 =
     (if ?w = [] then 0 else int64 (sum_list ?w), int (length ?w))"
    using meanLoop_window [of "int (length ?r) - 1" ?r 0 0] by (simp add: window_last)
  have k: "?k \<noteq> 0" by (simp add: rttAverageNum_def)
  show ?thesis
  proof (cases "?r = []")
    case True
    with m have "meanLoop [] (- 1) 0 0 = (0, 0)" by simp
    with True show ?thesis by (simp add: GetMeanRTT_def int64_def Millisecond_def)
  next
    case False
    then have ml: "meanLoop ?r (int (length ?r) - 1) 0 0 =
       (int64 (sum_list (take ?k (rev ?r))), int (min ?k (length ?r)))"
      using k by (simp add: m min.commute)
    have nz: "(min ?k (length ?r) = 0) = False"
      using False k by (cases ?r) simp_all
    show ?thesis using False
      by (simp add: GetMeanRTT_def ml nz)
  qed
qed

text \<open>
  C1. With eleven recorded samples, the oldest of 11 ms and the ten most recent of
  0 ms, \<open>GetMeanRTT\<close> returns 1 ms: the loop bound \<open>rttAverageNum + 1\<close> lets it read
  eleven samples, while the mean of the last \<open>rttAverageNum\<close> samples is 0.
\<close>

theorem GetMeanRTT_reads_eleven_samples:
  "GetMeanRTT \<lparr>LastHeartbeat = 0, HeartbeatSendTimes = Map.empty,
      RTTs = [11000000, 0, 0, 0, 0, 0, 0, 0, 0, 0, 0]\<rparr> = 1000000
   \<and> meanOfLast (nat rttAverageNum) [11000000, 0, 0, 0, 0, 0, 0, 0, 0, 0, 0] = 0"
  by (simp add: GetMeanRTT_def meanOfLast_def meanLoop_step meanLoop_stop
      rttAverageNum_def int64_def Millisecond_def)

subsection \<open>One round of the heartbeat task\<close>

lemma heartbeatRound_Cons:
  "heartbeatRound env (q # order) s = heartbeatRound env order (heartbeatVisit env q s)"
  by (simp add: heartbeatRound_def)

lemma heartbeatVisit_clients:
  "clients (heartbeatVisit env q s) = clients s"
  by (simp add: heartbeatVisit_def heartbeatClient_def evict_def net_defs Let_def
      split: option.splits)

lemma heartbeatVisit_other:
  "p \<noteq> q \<Longrightarrow> connectedClients (heartbeatVisit env q s) p = connectedClients s p"
  by (simp add: heartbeatVisit_def heartbeatClient_def evict_def net_defs Let_def
      split: option.splits)

lemma heartbeatVisit_other_events:
  "p \<noteq> q \<Longrightarrow>
   count_list (trace (heartbeatVisit env q s)) (Raised (ClientDisconnectEvent p)) =
   count_list (trace s) (Raised (ClientDisconnectEvent p))"
  by (simp add: heartbeatVisit_def heartbeatClient_def evict_def net_defs Let_def
      split: option.splits)

lemma heartbeatVisit_timeout:
  assumes "connectedClients s p = Some info"
    and "Since (sinceClock (env p)) (LastHeartbeat info) \<ge> timeoutInterval"
  shows "connectedClients (heartbeatVisit env p s) p = None"
    and "count_list (trace (heartbeatVisit env p s)) (Raised (ClientDisconnectEvent p)) =
         count_list (trace s) (Raised (ClientDisconnectEvent p)) + 1"
  using assms
  by (simp_all add: heartbeatVisit_def heartbeatClient_def evict_def net_defs Let_def
      split: option.splits)

lemma heartbeatVisit_tracked_registered:
  "connectedClients (heartbeatVisit env p s) p \<noteq> None \<Longrightarrow>
   clients (heartbeatVisit env p s) p \<noteq> None"
  by (auto simp add: heartbeatVisit_def heartbeatClient_def evict_def net_defs Let_def
      split: option.splits if_splits)

lemma heartbeatRound_clients:
  "clients (heartbeatRound env order s) = clients s"
  unfolding heartbeatRound_def
  by (induction order arbitrary: s) (simp_all add: heartbeatVisit_clients)

lemma heartbeatRound_others:
  "p \<notin> set order \<Longrightarrow>
   connectedClients (heartbeatRound env order s) p = connectedClients s p \<and>
   count_list (trace (heartbeatRound env order s)) (Raised (ClientDisconnectEvent p)) =
   count_list (trace s) (Raised (ClientDisconnectEvent p))"
  unfolding heartbeatRound_def
  by (induction order arbitrary: s) (simp_all add: heartbeatVisit_other heartbeatVisit_other_events)

lemma late_reading: "timeoutInterval \<le> Since 2500000000 0"
  by (simp add: Since_def Sub_def timeoutInterval_def Millisecond_def maxDuration_def
      minDuration_def)

text \<open>
  C2, as stated, fails: the peer of the example server has been silent for 2500 ms when
  the round reaches it. The round raises the disconnect event and drops the peer from
  the liveness table, but the peer is still in the connection registry afterwards: the
  round never calls \<open>Network.Disconnect\<close>.
\<close>

theorem timeout_leaves_peer_registered:
  "connectedClients exampleServer ''peer'' = Some exampleInfo
   \<and> timeoutInterval \<le> Since (sinceClock (lateReading ''peer'')) (LastHeartbeat exampleInfo)
   \<and> connectedClients (heartbeatRound lateReading [''peer''] exampleServer) ''peer'' = None
   \<and> clients (heartbeatRound lateReading [''peer''] exampleServer) ''peer'' = Some 1
   \<and> trace (heartbeatRound lateReading [''peer''] exampleServer) =
       [Raised (ClientDisconnectEvent ''peer'')]"
  using late_reading
  by (simp add: round_defs net_defs example_defs)

text \<open>
  C2, amended. For every peer in the liveness table, if the round finds at the peer's
  turn that no heartbeat has been received for at least \<open>timeoutInterval\<close>, then the
  round raises exactly one disconnect event for that peer, the peer is absent from the
  liveness table after the round, and the round leaves the connection registry as it
  was. The round visits every identity once (\<open>distinct order\<close>).
\<close>

theorem timeout_evicts_from_tracker:
  assumes "connectedClients s p = Some info"
    and "Since (sinceClock (env p)) (LastHeartbeat info) \<ge> timeoutInterval"
    and "p \<in> set order" and "distinct order"
  shows "connectedClients (heartbeatRound env order s) p = None
    \<and> count_list (trace (heartbeatRound env order s)) (Raised (ClientDisconnectEvent p)) =
      count_list (trace s) (Raised (ClientDisconnectEvent p)) + 1
    \<and> clients (heartbeatRound env order s) = clients s"
  using assms
proof (induction order arbitrary: s)
  case Nil
  then show ?case by simp
next
  case (Cons q order)
  show ?case
  proof (cases "q = p")
    case True
    with Cons.prems have "p \<notin> set order" by simp
    have "connectedClients (heartbeatVisit env p s) p = None"
      and "count_list (trace (heartbeatVisit env p s)) (Raised (ClientDisconnectEvent p)) =
         count_list (trace s) (Raised (ClientDisconnectEvent p)) + 1"
      using Cons.prems(1,2) by (rule heartbeatVisit_timeout)+
    with heartbeatRound_others [OF \<open>p \<notin> set order\<close>, of env "heartbeatVisit env p s"] True
    show ?thesis
      by (simp add: heartbeatRound_Cons heartbeatRound_clients heartbeatVisit_clients)
  next
    case False
    then have neq: "p \<noteq> q" by simp
    from False Cons.prems have "p \<in> set order" "distinct order" by auto
    moreover have "connectedClients (heartbeatVisit env q s) p = Some info"
      using neq Cons.prems(1) by (simp add: heartbeatVisit_other)
    ultimately have
      "connectedClients (heartbeatRound env order (heartbeatVisit env q s)) p = None
       \<and> count_list (trace (heartbeatRound env order (heartbeatVisit env q s)))
            (Raised (ClientDisconnectEvent p)) =
          count_list (trace (heartbeatVisit env q s)) (Raised (ClientDisconnectEvent p)) + 1"
      using Cons.IH [of "heartbeatVisit env q s"] Cons.prems(2) by simp
    then show ?thesis
      using neq
      by (simp add: heartbeatRound_Cons heartbeatVisit_other_events heartbeatRound_clients
          heartbeatVisit_clients)
  qed
qed

text \<open>The amended C2 at the example server: one event, the peer untracked, the registry kept.\<close>

theorem timeout_evicts_from_tracker_witness:
  "connectedClients exampleServer ''peer'' = Some exampleInfo
   \<and> timeoutInterval \<le> Since (sinceClock (lateReading ''peer'')) (LastHeartbeat exampleInfo)
   \<and> ''peer'' \<in> set [''peer''] \<and> distinct [''peer'']
   \<and> connectedClients (heartbeatRound lateReading [''peer''] exampleServer) ''peer'' = None
   \<and> count_list (trace (heartbeatRound lateReading [''peer''] exampleServer))
        (Raised (ClientDisconnectEvent ''peer'')) = 1
   \<and> clients (heartbeatRound lateReading [''peer''] exampleServer) = clients exampleServer"
proof -
  have a: "connectedClients exampleServer ''peer'' = Some exampleInfo"
    by (simp add: exampleServer_def)
  have b: "timeoutInterval \<le> Since (sinceClock (lateReading ''peer'')) (LastHeartbeat exampleInfo)"
    using late_reading by (simp add: lateReading_def exampleInfo_def)
  have e: "trace exampleServer = []" by (simp add: exampleServer_def)
  from timeout_evicts_from_tracker
    [of exampleServer "''peer''" exampleInfo lateReading "[''peer'']"] a b e
  show ?thesis by simp
qed

lemma heartbeatRound_inclusion_at:
  "p \<in> set order \<or> (connectedClients s p \<noteq> None \<longrightarrow> clients s p \<noteq> None) \<Longrightarrow>
   connectedClients (heartbeatRound env order s) p \<noteq> None \<Longrightarrow>
   clients (heartbeatRound env order s) p \<noteq> None"
proof (induction order arbitrary: s)
  case Nil
  then show ?case by (simp add: heartbeatRound_def)
next
  case (Cons q order)
  have "p \<in> set order \<or>
    (connectedClients (heartbeatVisit env q s) p \<noteq> None \<longrightarrow>
     clients (heartbeatVisit env q s) p \<noteq> None)"
  proof (cases "q = p")
    case True
    then show ?thesis using heartbeatVisit_tracked_registered [of env p s] by blast
  next
    case False
    then have "p \<noteq> q" by simp
    then show ?thesis using Cons.prems(1)
      by (auto simp: heartbeatVisit_other heartbeatVisit_clients)
  qed
  from Cons.IH [OF this] Cons.prems(2) show ?case by (simp add: heartbeatRound_Cons)
qed

subsection \<open>The dispatcher\<close>

lemma GetMeanRTT_LastHeartbeat:
  "GetMeanRTT (info\<lparr>LastHeartbeat := t\<rparr>) = GetMeanRTT info"
  by (simp add: GetMeanRTT_def)

lemma dispatch_ID:
  "dispatch pm now later s c msg = Inr (out, s') \<Longrightarrow> ID s' = ID s"
  by (auto simp: dispatch_def net_defs Let_def onHeartbeat_def onHeartbeatReply_def
      split: if_splits option.splits Payload.splits)

text \<open>
  C3, as stated, fails: after the example server has handled a Disconnect envelope on
  the peer's connection, the peer is absent from the registry and its liveness record is
  still in the liveness table.
\<close>

theorem disconnect_leaves_peer_tracked:
  "\<not> isl (handleMessage noReply 10 11 exampleServer 1 disconnectFromPeer)
   \<and> clients (projr (handleMessage noReply 10 11 exampleServer 1 disconnectFromPeer)) ''peer''
       = None
   \<and> connectedClients (projr (handleMessage noReply 10 11 exampleServer 1 disconnectFromPeer))
        ''peer'' = Some exampleInfo"
  by (simp add: handler_defs net_defs example_defs)

text \<open>
  C3, amended. Handling an inbound Disconnect envelope raises one disconnect event for
  the peer of the connection it arrived on and removes that peer from the connection
  registry; the liveness table is left as it was and nothing is sent. (With the
  \<open>Distributor\<close> flag set, the sender identity must have at least four bytes, which the
  handler prints first.)
\<close>

theorem disconnect_removes_registry_entry:
  assumes "Payload msg = DisconnectMessage"
    and "Distributor s \<longrightarrow> 4 \<le> length (SenderID msg)"
  shows "handleMessage pm now later s c msg =
     Inr (s\<lparr>clients := (clients s)(ClientID (heap s c) := None),
            trace := trace s @ [Signalled (MessageID msg) msg,
                                Raised (ClientDisconnectEvent (ClientID (heap s c)))]\<rparr>)"
  using assms by (auto simp: handler_defs net_defs)

text \<open>The amended C3 at the example server.\<close>

theorem disconnect_removes_registry_entry_witness:
  "Payload disconnectFromPeer = DisconnectMessage
   \<and> \<not> Distributor exampleServer
   \<and> handleMessage noReply 10 11 exampleServer 1 disconnectFromPeer =
       Inr (exampleServer\<lparr>clients := (clients exampleServer)(''peer'' := None),
              trace := [Signalled [] disconnectFromPeer, Raised (ClientDisconnectEvent ''peer'')]\<rparr>)"
  using disconnect_removes_registry_entry [of disconnectFromPeer exampleServer noReply 10 11 1]
  by (simp add: example_defs)

text \<open>
  C4, as stated, fails: the example peer has a heartbeat with sequence number 5 pending
  since instant 100. After its HeartbeatReply for 5 has been handled, the pending entry
  is still in the record's map of send times.
\<close>

theorem heartbeat_reply_keeps_pending_entry:
  "\<not> isl (handleMessage noReply 150 151 exampleServer 1 replyFromPeer)
   \<and> map_option HeartbeatSendTimes
        (connectedClients (projr (handleMessage noReply 150 151 exampleServer 1 replyFromPeer))
           ''peer'')
      = Some [5 \<mapsto> 100]"
  by (simp add: handler_defs net_defs example_defs)

text \<open>
  C4, amended. When the instance is not a distributor, for every inbound HeartbeatReply
  envelope addressed to it from a tracked sender, the handler reads the pending send
  time of that sequence number (the zero time when there is none) and leaves the map of
  pending send times as it was, appends exactly one round-trip sample to the sample
  history, refreshes the sender's last-heartbeat time, and sends no reply envelope: the
  trace gains the signal and the request to redraw, and nothing else changes.
\<close>

theorem heartbeat_reply_records_sample:
  assumes "Payload msg = HeartbeatReplyMessage seq"
    and "RecipientID msg = ID s"
    and "\<not> Distributor s"
    and "connectedClients s (SenderID msg) = Some info"
  shows "handleMessage pm now later s c msg =
     Inr (s\<lparr>connectedClients := (connectedClients s)(SenderID msg \<mapsto>
              info\<lparr>LastHeartbeat := now,
                   RTTs := RTTs info @
                     [Since later (case HeartbeatSendTimes info seq of
                                     None \<Rightarrow> zeroTime | Some t \<Rightarrow> t)]\<rparr>),
            trace := trace s @ [Signalled (MessageID msg) msg, DebugRender]\<rparr>)"
  using assms by (simp add: handler_defs net_defs)

text \<open>The amended C4 at the example server: the sample is 151 - 100 = 51 ns.\<close>

theorem heartbeat_reply_records_sample_witness:
  "Payload replyFromPeer = HeartbeatReplyMessage 5
   \<and> RecipientID replyFromPeer = ID exampleServer
   \<and> \<not> Distributor exampleServer
   \<and> connectedClients exampleServer (SenderID replyFromPeer) = Some exampleInfo
   \<and> handleMessage noReply 150 151 exampleServer 1 replyFromPeer =
       Inr (exampleServer\<lparr>connectedClients := [''peer'' \<mapsto>
              \<lparr>LastHeartbeat = 150, HeartbeatSendTimes = [5 \<mapsto> 100], RTTs = [51]\<rparr>],
            trace := [Signalled [] replyFromPeer, DebugRender]\<rparr>)"
  using heartbeat_reply_records_sample
    [of replyFromPeer 5 exampleServer exampleInfo noReply 150 151 1]
  by (simp add: example_defs Since_def Sub_def maxDuration_def minDuration_def)

text \<open>
  C6. On a distributor the claim fails by a slip of the debug print: the handler prints
  \<open>baseMsg.SenderID[:4]\<close> before it looks at the envelope, and the slice panics on an
  identity shorter than four bytes. A non-Disconnect envelope from the sender \<open>ab\<close> to
  a registered recipient is therefore not forwarded; the handler panics.
\<close>

theorem forward_panics_on_short_sender:
  "Payload shortSenderToPeer \<noteq> DisconnectMessage
   \<and> RecipientID shortSenderToPeer \<noteq> ID exampleDistributor
   \<and> GetClient exampleDistributor (RecipientID shortSenderToPeer) = Some 1
   \<and> handleMessage noReply 10 11 exampleDistributor 1 shortSenderToPeer =
       Inl SliceBoundsOutOfRange"
  by (simp add: handler_defs net_defs example_defs)

text \<open>
  Wherever the debug print does not panic, the handler does what C6 says: the envelope
  is written to the recipient's connection unmodified, and \<open>ProcessMessage\<close> is not
  called. The trace gains the signal and the forwarded envelope only, and the result
  does not depend on the application.
\<close>

lemma forward_unmodified:
  assumes "Payload msg \<noteq> DisconnectMessage"
    and "RecipientID msg \<noteq> ID s"
    and "GetClient s (RecipientID msg) = Some recipient"
    and "Distributor s \<longrightarrow> 4 \<le> length (SenderID msg) \<and> 4 \<le> length (RecipientID msg)"
  shows "handleMessage pm now later s c msg =
     Inr (s\<lparr>trace := trace s @ [Signalled (MessageID msg) msg, Sent recipient msg]\<rparr>)"
  using assms by (auto simp: handler_defs net_defs)

text \<open>Forwarding at the example distributor, with an application that would reply.\<close>

lemma forward_unmodified_example:
  "handleMessage lobbyReply 10 11 exampleDistributor 2 helloToPeer =
     Inr (exampleDistributor\<lparr>trace := [Signalled ''m4'' helloToPeer, Sent 1 helloToPeer]\<rparr>)"
  using forward_unmodified [of helloToPeer exampleDistributor 1 lobbyReply 10 11 2]
  by (simp add: example_defs GetClient_def)

text \<open>
  C7. Every reply that the dispatch of an inbound envelope leaves in \<open>res\<close> is sent on
  the connection the envelope arrived on, with the recipient set to the request's
  sender, the sender set to this instance's identity and the message id set to the
  request's message id (empty when the request's is empty); an \<open>error\<close> value goes out
  as an Error message with the error's text; a nil reply sends nothing.
\<close>

theorem reply_stamped_and_sent:
  assumes "dispatch pm now later s c msg = Inr (Res res, s')"
  shows "handleMessage pm now later s c msg =
     Inr (case res of
            NilReply \<Rightarrow> s'
          | ErrorValue err \<Rightarrow> s'\<lparr>trace := trace s' @
                [Sent c \<lparr>MessageID = MessageID msg, SenderID = ID s, RecipientID = SenderID msg,
                         Payload = ErrorMessage err\<rparr>]\<rparr>
          | Msg m \<Rightarrow> s'\<lparr>trace := trace s' @
                [Sent c \<lparr>MessageID = MessageID msg, SenderID = ID s, RecipientID = SenderID msg,
                         Payload = Payload m\<rparr>]\<rparr>)"
proof -
  have "ID s' = ID s" using assms by (rule dispatch_ID)
  then show ?thesis using assms
    by (cases res)
      (simp_all add: handleMessage_def sendReply_def Send_def emit_def stamp_def
        NewErrorMessage_def)
qed

text \<open>C7 at the example server, for an application message that the application answers.\<close>

theorem reply_stamped_and_sent_witness:
  "dispatch lobbyReply 10 11 exampleServer 1 helloToSelf =
     Inr (Res (lobbyReply 1 helloToSelf),
          exampleServer\<lparr>trace := [Signalled ''m3'' helloToSelf, Processed 1 helloToSelf]\<rparr>)
   \<and> handleMessage lobbyReply 10 11 exampleServer 1 helloToSelf =
     Inr (exampleServer\<lparr>trace := [Signalled ''m3'' helloToSelf, Processed 1 helloToSelf,
        Sent 1 \<lparr>MessageID = ''m3'', SenderID = ''self'', RecipientID = ''peer'',
                Payload = AppMessage ''lobby''\<rparr>]\<rparr>)"
proof -
  have d: "dispatch lobbyReply 10 11 exampleServer 1 helloToSelf =
     Inr (Res (lobbyReply 1 helloToSelf),
          exampleServer\<lparr>trace := [Signalled ''m3'' helloToSelf, Processed 1 helloToSelf]\<rparr>)"
    by (simp add: dispatch_def net_defs example_defs)
  from reply_stamped_and_sent [OF d] d show ?thesis
    by (simp add: example_defs)
qed

text \<open>
  The replies that reach the end of the handler: what \<open>ProcessMessage\<close> returns for an
  envelope addressed to this instance that is neither a heartbeat nor a heartbeat reply
  nor a Disconnect.
\<close>

lemma dispatch_application:
  assumes "Payload msg = AppMessage body \<or> Payload msg = ErrorMessage body"
    and "RecipientID msg = ID s"
    and "\<not> Distributor s"
  shows "dispatch pm now later s c msg =
     Inr (Res (pm c msg),
          s\<lparr>trace := trace s @ [Signalled (MessageID msg) msg, Processed c msg]\<rparr>)"
  using assms by (auto simp: dispatch_def net_defs)

text \<open>
  C8. On a distributor the claim fails by a slip of the debug print: before the lookup
  the handler prints \<open>baseMsg.RecipientID[:4]\<close>, and the slice panics on an identity
  shorter than four bytes. For an envelope addressed to the unregistered identity \<open>xy\<close>
  no Error envelope is sent; the handler panics.
\<close>

theorem invalid_recipient_panics_on_short_recipient:
  "Payload helloToShortName \<noteq> DisconnectMessage
   \<and> RecipientID helloToShortName \<noteq> ID exampleDistributor
   \<and> GetClient exampleDistributor (RecipientID helloToShortName) = None
   \<and> handleMessage noReply 10 11 exampleDistributor 1 helloToShortName =
       Inl SliceBoundsOutOfRange"
  by (simp add: handler_defs net_defs example_defs)

text \<open>
  Wherever the debug print does not panic, the handler does what C8 says: exactly one
  Error envelope with the message \<open>Invalid recipient\<close> is sent back on the connection
  the envelope arrived on, addressed to the original sender; nothing else happens but
  the signal.
\<close>

lemma invalid_recipient_error_reply:
  assumes "Payload msg \<noteq> DisconnectMessage"
    and "RecipientID msg \<noteq> ID s"
    and "GetClient s (RecipientID msg) = None"
    and "Distributor s \<longrightarrow> 4 \<le> length (SenderID msg) \<and> 4 \<le> length (RecipientID msg)"
  shows "handleMessage pm now later s c msg =
     Inr (s\<lparr>trace := trace s @ [Signalled (MessageID msg) msg,
        Sent c \<lparr>MessageID = MessageID msg, SenderID = ID s, RecipientID = SenderID msg,
                Payload = ErrorMessage ''Invalid recipient''\<rparr>]\<rparr>)"
  using assms by (auto simp: handler_defs net_defs)

text \<open>The Error reply at the example server.\<close>

lemma invalid_recipient_error_reply_example:
  "handleMessage lobbyReply 10 11 exampleServer 1 helloToNobody =
     Inr (exampleServer\<lparr>trace := [Signalled ''m5'' helloToNobody,
        Sent 1 \<lparr>MessageID = ''m5'', SenderID = ''self'', RecipientID = ''peer'',
                Payload = ErrorMessage ''Invalid recipient''\<rparr>]\<rparr>)"
  using invalid_recipient_error_reply [of helloToNobody exampleServer lobbyReply 10 11 1]
  by (simp add: example_defs GetClient_def)

text \<open>
  C9, as stated, fails: a distributor panics on every envelope addressed to itself, so
  a Heartbeat from its tracked peer is not answered.
\<close>

theorem heartbeat_panics_in_distributor:
  "Payload heartbeatFromPeer = HeartbeatMessage 5 ''meta''
   \<and> RecipientID heartbeatFromPeer = ID exampleDistributor
   \<and> connectedClients exampleDistributor (SenderID heartbeatFromPeer) = Some exampleInfo
   \<and> handleMessage noReply 10 11 exampleDistributor 1 heartbeatFromPeer =
       Inl RecipientIsDistributor"
  by (simp add: handler_defs net_defs example_defs)

text \<open>
  C9, amended. When the instance is not a distributor, for every inbound Heartbeat
  envelope addressed to it from a peer tracked in the liveness table, the handler
  refreshes that peer's last-heartbeat time, stores the milliseconds of the peer's mean
  round-trip time as the distance of the connection the envelope arrived on, raises the
  heartbeat metadata as an event, and sends back a HeartbeatReply with the same sequence
  number, stamped for the sender.
\<close>

theorem heartbeat_from_tracked_peer:
  assumes "Payload msg = HeartbeatMessage seq md"
    and "RecipientID msg = ID s"
    and "\<not> Distributor s"
    and "connectedClients s (SenderID msg) = Some info"
  shows "handleMessage pm now later s c msg =
     Inr (s\<lparr>connectedClients :=
              (connectedClients s)(SenderID msg \<mapsto> info\<lparr>LastHeartbeat := now\<rparr>),
            heap := (heap s)(c := (heap s c)\<lparr>Distance := Milliseconds (GetMeanRTT info)\<rparr>),
            trace := trace s @ [Signalled (MessageID msg) msg, Raised (HeartbeatEvent md),
              Sent c \<lparr>MessageID = MessageID msg, SenderID = ID s, RecipientID = SenderID msg,
                      Payload = HeartbeatReplyMessage seq\<rparr>]\<rparr>)"
  using assms by (simp add: handler_defs net_defs GetMeanRTT_LastHeartbeat)

text \<open>
  The amended C9 at the example server: the peer has no sample yet, so the distance
  stored is the sentinel, minus one millisecond.
\<close>

theorem heartbeat_from_tracked_peer_witness:
  "Payload heartbeatFromPeer = HeartbeatMessage 5 ''meta''
   \<and> RecipientID heartbeatFromPeer = ID exampleServer
   \<and> \<not> Distributor exampleServer
   \<and> connectedClients exampleServer (SenderID heartbeatFromPeer) = Some exampleInfo
   \<and> handleMessage noReply 10 11 exampleServer 1 heartbeatFromPeer =
     Inr (exampleServer\<lparr>connectedClients := [''peer'' \<mapsto> exampleInfo\<lparr>LastHeartbeat := 10\<rparr>],
            heap := exampleHeap(1 := examplePeer\<lparr>Distance := - 1\<rparr>),
            trace := [Signalled ''m1'' heartbeatFromPeer, Raised (HeartbeatEvent ''meta''),
              Sent 1 \<lparr>MessageID = ''m1'', SenderID = ''self'', RecipientID = ''peer'',
                      Payload = HeartbeatReplyMessage 5\<rparr>]\<rparr>)"
proof -
  have m: "Milliseconds (GetMeanRTT exampleInfo) = - 1"
    by (simp add: Milliseconds_def GetMeanRTT_def exampleInfo_def meanLoop.simps
        rttAverageNum_def int64_def Millisecond_def)
  from heartbeat_from_tracked_peer
    [of heartbeatFromPeer 5 "''meta''" exampleServer exampleInfo noReply 10 11 1] m
  show ?thesis
    by (simp add: exampleServer_def heartbeatFromPeer_def exampleHeap_def)
qed

text \<open>
  C10, as stated, fails: a distributor panics on every envelope addressed to itself,
  so a Heartbeat from an untracked sender is not answered either.
\<close>

theorem untracked_heartbeat_panics_in_distributor:
  "Payload heartbeatFromStranger = HeartbeatMessage 7 ''meta''
   \<and> RecipientID heartbeatFromStranger = ID exampleDistributor
   \<and> connectedClients exampleDistributor (SenderID heartbeatFromStranger) = None
   \<and> handleMessage noReply 10 11 exampleDistributor 1 heartbeatFromStranger =
       Inl RecipientIsDistributor"
  by (simp add: handler_defs net_defs example_defs)

text \<open>
  C10, amended. When the instance is not a distributor, for every inbound Heartbeat
  envelope addressed to it whose sender is not in the liveness table, the handler still
  raises the metadata event and still sends back a HeartbeatReply with the same sequence
  number; the liveness table, the connection records and the registry are left as they
  were.
\<close>

theorem heartbeat_from_untracked_peer:
  assumes "Payload msg = HeartbeatMessage seq md"
    and "RecipientID msg = ID s"
    and "\<not> Distributor s"
    and "connectedClients s (SenderID msg) = None"
  shows "handleMessage pm now later s c msg =
     Inr (s\<lparr>trace := trace s @ [Signalled (MessageID msg) msg, Raised (HeartbeatEvent md),
          Sent c \<lparr>MessageID = MessageID msg, SenderID = ID s, RecipientID = SenderID msg,
                  Payload = HeartbeatReplyMessage seq\<rparr>]\<rparr>)"
  using assms by (simp add: handler_defs net_defs)

text \<open>The amended C10 at the example server.\<close>

theorem heartbeat_from_untracked_peer_witness:
  "Payload heartbeatFromStranger = HeartbeatMessage 7 ''meta''
   \<and> RecipientID heartbeatFromStranger = ID exampleServer
   \<and> \<not> Distributor exampleServer
   \<and> connectedClients exampleServer (SenderID heartbeatFromStranger) = None
   \<and> handleMessage noReply 10 11 exampleServer 1 heartbeatFromStranger =
     Inr (exampleServer\<lparr>trace := [Signalled ''m2'' heartbeatFromStranger,
          Raised (HeartbeatEvent ''meta''),
          Sent 1 \<lparr>MessageID = ''m2'', SenderID = ''self'', RecipientID = ''anon'',
                  Payload = HeartbeatReplyMessage 7\<rparr>]\<rparr>)"
  using heartbeat_from_untracked_peer
    [of heartbeatFromStranger 7 "''meta''" exampleServer noReply 10 11 1]
  by (simp add: example_defs)

subsection \<open>The liveness table within the registry\<close>

text \<open>
  What the handler does to the two tables: it never changes the set of tracked
  identities, and it changes the registry only for a Disconnect envelope.
\<close>

lemma handleMessage_tracked:
  assumes "handleMessage pm now later s c msg = Inr s'"
  shows "dom (connectedClients s') = dom (connectedClients s)"
    and "clients s' = (if Payload msg = DisconnectMessage
                       then (clients s)(ClientID (heap s c) := None) else clients s)"
  using assms
  by (auto simp: handler_defs net_defs split: if_splits option.splits Payload.splits Reply.splits)

text \<open>
  A peer is still tracked after its turn in the round exactly if it was tracked, is
  registered, and has been heard of less than \<open>timeoutInterval\<close> ago.
\<close>

lemma heartbeatVisit_self:
  "connectedClients (heartbeatVisit env p s) p \<noteq> None \<longleftrightarrow>
     (\<exists>info. connectedClients s p = Some info \<and> clients s p \<noteq> None
        \<and> Since (sinceClock (env p)) (LastHeartbeat info) < timeoutInterval)"
  by (auto simp: heartbeatVisit_def heartbeatClient_def evict_def net_defs Let_def
      split: option.splits if_splits)

lemma heartbeatRound_tracked_iff:
  assumes "distinct order" and "p \<in> set order"
  shows "connectedClients (heartbeatRound env order s) p \<noteq> None \<longleftrightarrow>
     (\<exists>info. connectedClients s p = Some info \<and> clients s p \<noteq> None
        \<and> Since (sinceClock (env p)) (LastHeartbeat info) < timeoutInterval)"
  using assms
proof (induction order arbitrary: s)
  case Nil
  then show ?case by simp
next
  case (Cons q order)
  show ?case
  proof (cases "q = p")
    case True
    with Cons.prems have "p \<notin> set order" by simp
    from heartbeatRound_others [OF this, of env "heartbeatVisit env p s"] True
    have e: "connectedClients (heartbeatRound env (q # order) s) p =
       connectedClients (heartbeatVisit env p s) p"
      by (simp add: heartbeatRound_Cons)
    show ?thesis unfolding e by (rule heartbeatVisit_self)
  next
    case False
    then have neq: "p \<noteq> q" by simp
    from False Cons.prems have "distinct order" "p \<in> set order" by auto
    note IH = Cons.IH [OF this, of "heartbeatVisit env q s"]
    have e1: "connectedClients (heartbeatVisit env q s) p = connectedClients s p"
      using neq by (rule heartbeatVisit_other)
    have e2: "clients (heartbeatVisit env q s) = clients s"
      by (rule heartbeatVisit_clients)
    from IH show ?thesis unfolding heartbeatRound_Cons e1 e2 .
  qed
qed

lemma heartbeatRound_dom:
  assumes "dom (connectedClients s) \<subseteq> set order" and "distinct order"
  shows "dom (connectedClients (heartbeatRound env order s)) =
     {p. \<exists>info. connectedClients s p = Some info \<and> clients s p \<noteq> None
           \<and> Since (sinceClock (env p)) (LastHeartbeat info) < timeoutInterval}"
proof (rule set_eqI)
  fix p
  show "p \<in> dom (connectedClients (heartbeatRound env order s)) \<longleftrightarrow>
     p \<in> {p. \<exists>info. connectedClients s p = Some info \<and> clients s p \<noteq> None
           \<and> Since (sinceClock (env p)) (LastHeartbeat info) < timeoutInterval}"
  proof (cases "p \<in> set order")
    case True
    from heartbeatRound_tracked_iff [OF assms(2) True, of env s]
    show ?thesis by (simp add: dom_def)
  next
    case False
    then have "connectedClients s p = None" using assms(1) by (auto simp: dom_def)
    moreover from heartbeatRound_others [OF False, of env s]
    have "connectedClients (heartbeatRound env order s) p = connectedClients s p" by simp
    ultimately show ?thesis by (simp add: dom_def)
  qed
qed

text \<open>
  C5, as stated, fails. The example server satisfies the inclusion. After it handles a
  Disconnect envelope on the peer's connection, the peer is gone from the registry and
  still in the liveness table; and \<open>BeginHeartbeats\<close> for an identity that has no
  connection puts it into the liveness table alone.
\<close>

theorem tracked_peer_not_registered:
  "dom (connectedClients exampleServer) \<subseteq> dom (clients exampleServer)
   \<and> \<not> isl (handleMessage noReply 10 11 exampleServer 1 disconnectFromPeer)
   \<and> \<not> dom (connectedClients (projr (handleMessage noReply 10 11 exampleServer 1 disconnectFromPeer)))
        \<subseteq> dom (clients (projr (handleMessage noReply 10 11 exampleServer 1 disconnectFromPeer)))
   \<and> \<not> dom (connectedClients (BeginHeartbeats 0 ''anon'' exampleServer))
        \<subseteq> dom (clients (BeginHeartbeats 0 ''anon'' exampleServer))"
  by (simp add: handler_defs net_defs example_defs BeginHeartbeats_def)

text \<open>
  C5, amended. With the operations of the server run one at a time, every operation
  but two keeps every tracked peer identity in the connection registry: the inclusion is
  preserved by \<open>EndHeartbeats\<close>, by \<open>EndAllHeartbeats\<close>, by a round of the heartbeat
  task, by \<open>BeginHeartbeats\<close> for a registered identity, by the handling of every
  envelope that is not a Disconnect, and by the handling of a Disconnect on the
  connection of an untracked peer. It is not preserved by \<open>BeginHeartbeats\<close> for an
  unregistered identity nor by the handling of a Disconnect on the connection of a
  tracked peer. A round that visits every tracked identity once restores the inclusion
  from any state: it keeps exactly the tracked peers that are registered and have been
  heard of less than \<open>timeoutInterval\<close> ago. The reverse inclusion is not required.
\<close>

theorem tracker_within_registry:
  "(trackedRegistered s \<longrightarrow>
        trackedRegistered (EndHeartbeats p s)
      \<and> trackedRegistered (EndAllHeartbeats s)
      \<and> trackedRegistered (heartbeatRound env order s)
      \<and> (clients s p \<noteq> None \<longrightarrow> trackedRegistered (BeginHeartbeats now p s))
      \<and> (\<forall>s'. handleMessage pm now later s c msg = Inr s'
             \<and> (Payload msg \<noteq> DisconnectMessage
                 \<or> connectedClients s (ClientID (heap s c)) = None)
             \<longrightarrow> trackedRegistered s'))
   \<and> (dom (connectedClients s) \<subseteq> set order \<and> distinct order \<longrightarrow>
        trackedRegistered (heartbeatRound env order s)
      \<and> dom (connectedClients (heartbeatRound env order s)) =
          {p. \<exists>info. connectedClients s p = Some info \<and> clients s p \<noteq> None
                \<and> Since (sinceClock (env p)) (LastHeartbeat info) < timeoutInterval})"
proof (intro conjI impI allI)
  assume inv: "trackedRegistered s"
  show "trackedRegistered (EndHeartbeats p s)"
    using inv by (auto simp: trackedRegistered_def EndHeartbeats_def)
  show "trackedRegistered (EndAllHeartbeats s)"
    by (simp add: trackedRegistered_def EndAllHeartbeats_def)
  show "trackedRegistered (heartbeatRound env order s)"
    unfolding trackedRegistered_def
  proof
    fix q assume q: "q \<in> dom (connectedClients (heartbeatRound env order s))"
    have "q \<in> set order \<or> (connectedClients s q \<noteq> None \<longrightarrow> clients s q \<noteq> None)"
      using inv by (auto simp: trackedRegistered_def)
    from heartbeatRound_inclusion_at [OF this] q
    show "q \<in> dom (clients (heartbeatRound env order s))" by (auto simp: dom_def)
  qed
next
  assume inv: "trackedRegistered s" and "clients s p \<noteq> None"
  then show "trackedRegistered (BeginHeartbeats now p s)"
    by (auto simp: trackedRegistered_def BeginHeartbeats_def)
next
  fix s'
  assume inv: "trackedRegistered s"
    and h: "handleMessage pm now later s c msg = Inr s'
       \<and> (Payload msg \<noteq> DisconnectMessage \<or> connectedClients s (ClientID (heap s c)) = None)"
  from h handleMessage_tracked [of pm now later s c msg s']
  have d: "dom (connectedClients s') = dom (connectedClients s)"
    and c: "clients s' = (if Payload msg = DisconnectMessage
                       then (clients s)(ClientID (heap s c) := None) else clients s)"
    by simp_all
  show "trackedRegistered s'"
    using inv h unfolding trackedRegistered_def d c
    by (auto simp: dom_def)
next
  assume a: "dom (connectedClients s) \<subseteq> set order \<and> distinct order"
  show "trackedRegistered (heartbeatRound env order s)"
    unfolding trackedRegistered_def
  proof
    fix q assume q: "q \<in> dom (connectedClients (heartbeatRound env order s))"
    have "q \<in> set order \<or> (connectedClients s q \<noteq> None \<longrightarrow> clients s q \<noteq> None)"
      using a by (cases "connectedClients s q") auto
    from heartbeatRound_inclusion_at [OF this] q
    show "q \<in> dom (clients (heartbeatRound env order s))" by (auto simp: dom_def)
  qed
  show "dom (connectedClients (heartbeatRound env order s)) =
          {p. \<exists>info. connectedClients s p = Some info \<and> clients s p \<noteq> None
                \<and> Since (sinceClock (env p)) (LastHeartbeat info) < timeoutInterval}"
    using a by (intro heartbeatRound_dom) simp_all
qed

text \<open>
  The amended C5 at the example server, where the inclusion holds and every preserving
  operation keeps it (the peer stays tracked through the early round and through its
  own Heartbeat), and at the server that tracks \<open>anon\<close> without a connection, where
  the inclusion is broken and the early round restores it, dropping \<open>anon\<close> and keeping
  \<open>peer\<close>. After \<open>EndHeartbeats\<close> the peer is registered and untracked: the reverse
  inclusion does not hold.
\<close>

theorem tracker_within_registry_witness:
  "trackedRegistered exampleServer
   \<and> trackedRegistered (EndHeartbeats ''peer'' exampleServer)
   \<and> \<not> dom (clients (EndHeartbeats ''peer'' exampleServer))
        \<subseteq> dom (connectedClients (EndHeartbeats ''peer'' exampleServer))
   \<and> trackedRegistered (EndAllHeartbeats exampleServer)
   \<and> trackedRegistered (heartbeatRound earlyReading [''peer''] exampleServer)
   \<and> dom (connectedClients (heartbeatRound earlyReading [''peer''] exampleServer)) = {''peer''}
   \<and> clients exampleServer ''peer'' \<noteq> None
   \<and> trackedRegistered (BeginHeartbeats 0 ''peer'' exampleServer)
   \<and> Payload heartbeatFromPeer \<noteq> DisconnectMessage
   \<and> \<not> isl (handleMessage noReply 10 11 exampleServer 1 heartbeatFromPeer)
   \<and> trackedRegistered (projr (handleMessage noReply 10 11 exampleServer 1 heartbeatFromPeer))
   \<and> dom (connectedClients (projr (handleMessage noReply 10 11 exampleServer 1 heartbeatFromPeer)))
       = {''peer''}
   \<and> dom (connectedClients (BeginHeartbeats 0 ''anon'' exampleServer)) \<subseteq> set [''anon'', ''peer'']
   \<and> distinct [''anon'', ''peer'']
   \<and> \<not> trackedRegistered (BeginHeartbeats 0 ''anon'' exampleServer)
   \<and> trackedRegistered (heartbeatRound earlyReading [''anon'', ''peer'']
         (BeginHeartbeats 0 ''anon'' exampleServer))
   \<and> dom (connectedClients (heartbeatRound earlyReading [''anon'', ''peer'']
         (BeginHeartbeats 0 ''anon'' exampleServer))) = {''peer''}"
proof -
  have inv: "trackedRegistered exampleServer"
    by (simp add: trackedRegistered_def exampleServer_def)
  have reg: "clients exampleServer ''peer'' \<noteq> None"
    by (simp add: exampleServer_def)
  have rev: "\<not> dom (clients (EndHeartbeats ''peer'' exampleServer))
        \<subseteq> dom (connectedClients (EndHeartbeats ''peer'' exampleServer))"
    by (simp add: EndHeartbeats_def exampleServer_def)
  have pl: "Payload heartbeatFromPeer \<noteq> DisconnectMessage"
    by (simp add: heartbeatFromPeer_def)
  obtain s' where hm: "handleMessage noReply 10 11 exampleServer 1 heartbeatFromPeer = Inr s'"
    by (simp add: handler_defs net_defs example_defs)
  have hd: "dom (connectedClients s') = {''peer''}"
    using handleMessage_tracked(1) [OF hm] by (simp add: exampleServer_def)
  have cover: "dom (connectedClients (BeginHeartbeats 0 ''anon'' exampleServer))
      \<subseteq> set [''anon'', ''peer''] \<and> distinct [''anon'', ''peer'']"
    by (simp add: BeginHeartbeats_def exampleServer_def)
  have broken: "\<not> trackedRegistered (BeginHeartbeats 0 ''anon'' exampleServer)"
    by (simp add: trackedRegistered_def BeginHeartbeats_def exampleServer_def)
  have early: "Since 1000 0 < timeoutInterval"
    by (simp add: Since_def Sub_def timeoutInterval_def Millisecond_def maxDuration_def
        minDuration_def)
  have kept: "dom (connectedClients (heartbeatRound earlyReading [''peer''] exampleServer))
      = {''peer''}"
    using early
    by (simp add: round_defs net_defs exampleServer_def exampleInfo_def
        earlyReading_def examplePeer_def exampleHeap_def)
  have left: "dom (connectedClients (heartbeatRound earlyReading [''anon'', ''peer'']
         (BeginHeartbeats 0 ''anon'' exampleServer))) = {''peer''}"
    using early
    by (simp add: round_defs net_defs BeginHeartbeats_def exampleServer_def exampleInfo_def
        earlyReading_def examplePeer_def exampleHeap_def)
  note here = tracker_within_registry [where s = exampleServer and p = "''peer''"
      and env = earlyReading and order = "[''peer'']" and now = 0 and pm = noReply
      and later = 11 and c = 1 and msg = heartbeatFromPeer]
  note there = tracker_within_registry [where s = "BeginHeartbeats 0 ''anon'' exampleServer"
      and env = earlyReading and order = "[''anon'', ''peer'']"]
  from here inv reg pl have
    "trackedRegistered (EndHeartbeats ''peer'' exampleServer)
     \<and> trackedRegistered (EndAllHeartbeats exampleServer)
     \<and> trackedRegistered (heartbeatRound earlyReading [''peer''] exampleServer)
     \<and> trackedRegistered (BeginHeartbeats 0 ''peer'' exampleServer)"
    by blast
  moreover from there cover have
    "trackedRegistered (heartbeatRound earlyReading [''anon'', ''peer'']
         (BeginHeartbeats 0 ''anon'' exampleServer))"
    by blast
  moreover from tracker_within_registry [where s = exampleServer and pm = noReply and now = 10
      and later = 11 and c = 1 and msg = heartbeatFromPeer] inv pl hm
  have "trackedRegistered s'" by blast
  ultimately show ?thesis
    using inv reg rev pl hm hd cover broken kept left by simp
qed

end
